theory Spec2Isabelle
  imports Main "HOL-Library.Finite_Map" "HOL-Library.Word"
begin

unbundle bit_operations_syntax

section \<open>Dynamic values\<close>

text \<open>
  The gateway works on trees decoded from JSON and held in Go's \<^verbatim>\<open>interface{}\<close>.
  One constructor per dynamic type the code can meet: the untyped \<^verbatim>\<open>nil\<close>,
  \<^verbatim>\<open>bool\<close>, \<^verbatim>\<open>float64\<close> (its 64 bits), \<^verbatim>\<open>string\<close>, \<^verbatim>\<open>int\<close> (which only
  arises where the code passes a loop index as a value), \<^verbatim>\<open>[]interface{}\<close> and
  \<^verbatim>\<open>map[string]interface{}\<close>. Maps are finite and allocated; trees are values, so
  an in-place update of the source is the updated tree returned by the model.
\<close>

datatype iface =
    VNil
  | VBool bool
  | VFloat64 "64 word"
  | VString string
  | VInt int
  | VSlice "iface list"
  | VMap "(string, iface) fmap"

text \<open>The dynamic type, as the verb \<^verbatim>\<open>%T\<close> prints it in the error messages.\<close>

datatype gotype = TNil | TBool | TFloat64 | TString | TInt | TSlice | TMap

fun typeOf :: "iface \<Rightarrow> gotype" where
  "typeOf VNil = TNil"
| "typeOf (VBool _) = TBool"
| "typeOf (VFloat64 _) = TFloat64"
| "typeOf (VString _) = TString"
| "typeOf (VInt _) = TInt"
| "typeOf (VSlice _) = TSlice"
| "typeOf (VMap _) = TMap"

text \<open>Reading \<^verbatim>\<open>m[k]\<close> without the ok flag: a missing key reads as \<^verbatim>\<open>nil\<close>.\<close>

definition index :: "(string, iface) fmap \<Rightarrow> string \<Rightarrow> iface" where
  "index m k = (case fmlookup m k of None \<Rightarrow> VNil | Some v \<Rightarrow> v)"

text \<open>
  Every error value and panic of the code is a constructor. The messages that print a
  type carry it.
\<close>

datatype error =
    ExtractMissingID
  | ExtractNonStringID
  | ExtractUnexpectedType gotype
  | NothingToMerge
  | MergeUnexpectedTopLevel gotype
  | MergeUnexpectedNonTopLevel gotype
  | MapAtJSONPathNotMap gotype
  | ValueAtJSONPathNotMap gotype
  | ValueAtJSONPathInvalidPath
  | BoundaryResultsNotSlice gotype
  | BoundaryResultsElementNotMap nat gotype
  | BoundaryResultsMissingKey string
  | BoundaryResultsAliasNotMap string gotype
  | ErrNullBubbledToRoot
  | UnknownSelectionType
  | BubbleUnexpectedResultType gotype
  | PanicNilDereference
  | PanicSliceBounds
  | PanicUncomparable gotype

section \<open>Aliases\<close>

text \<open>\<^verbatim>\<open>nodeAlias(i) = fmt.Sprintf("_%d", i)\<close>: an underscore and the decimal digits.\<close>

definition digitChar :: "nat \<Rightarrow> char" where
  "digitChar d = char_of (48 + d)"

fun decimal :: "nat \<Rightarrow> string" where
  "decimal n = (if n < 10 then [digitChar n] else decimal (n div 10) @ [digitChar (n mod 10)])"

declare decimal.simps [simp del]

definition formatInt :: "int \<Rightarrow> string" where
  "formatInt i = (if i < 0 then CHR ''-'' # decimal (nat (- i)) else decimal (nat i))"

definition nodeAlias :: "int \<Rightarrow> string" where
  "nodeAlias i = CHR ''_'' # formatInt i"

section \<open>Loops with an early return\<close>

text \<open>
  A loop that calls a function on every element of a list and returns at the first
  error: the results of the calls, collected up to the first error.
\<close>

fun collect :: "(error + 'a) list \<Rightarrow> error + 'a list" where
  "collect [] = Inr []"
| "collect (r # rs) =
     (case r of
        Inl err \<Rightarrow> Inl err
      | Inr y \<Rightarrow> (case collect rs of Inl err \<Rightarrow> Inl err | Inr ys \<Rightarrow> Inr (y # ys)))"

section \<open>Extracting boundary IDs\<close>

text \<open>
  \<^verbatim>\<open>extractBoundaryIDs(data, insertionPoint)\<close>. With an empty insertion point a map
  gives its \<^verbatim>\<open>_id\<close>, which must be a string, and a list is walked with
  \<^verbatim>\<open>for innerPtr := range ptr\<close>, whose single variable is the index: the recursive
  call receives an \<^verbatim>\<open>int\<close>. With a non-empty insertion point a map is entered at
  the first key and a list is walked element by element with the same insertion point.
\<close>

function extractBoundaryIDs :: "iface \<Rightarrow> string list \<Rightarrow> error + string list" where
  "extractBoundaryIDs data [] =
     (case data of
        VMap ptr \<Rightarrow>
          (case fmlookup ptr ''_id'' of
             None \<Rightarrow> Inl ExtractMissingID
           | Some v \<Rightarrow>
               (case v of
                  VString str \<Rightarrow> Inr [str]
                | _ \<Rightarrow> Inl ExtractNonStringID))
      | VSlice ptr \<Rightarrow>
          (case collect (map (\<lambda>innerPtr. extractBoundaryIDs (VInt (int innerPtr)) []) [0 ..< length ptr]) of
             Inl err \<Rightarrow> Inl err
           | Inr ids \<Rightarrow> Inr (concat ids))
      | _ \<Rightarrow> Inl (ExtractUnexpectedType (typeOf data)))"
| "extractBoundaryIDs data (key # rest) =
     (case data of
        VMap ptr \<Rightarrow>
          (if length (key # rest) = 1 then extractBoundaryIDs (index ptr key) []
           else extractBoundaryIDs (index ptr key) rest)
      | VSlice ptr \<Rightarrow>
          (case collect (map (\<lambda>innerPtr. extractBoundaryIDs innerPtr (key # rest)) ptr) of
             Inl err \<Rightarrow> Inl err
           | Inr ids \<Rightarrow> Inr (concat ids))
      | _ \<Rightarrow> Inl (ExtractUnexpectedType (typeOf data)))"
  by pat_completeness auto
termination
  by (relation "measures [\<lambda>(data, ip). length ip, \<lambda>(data, ip). size data]")
     (auto simp: less_Suc_eq_le size_list_estimation')

section \<open>Merging execution results\<close>

record ExecutionResult =
  ServiceURL :: string
  InsertionPoint :: "string list"
  Data :: "(string, iface) fmap"

text \<open>\<^verbatim>\<open>valueAtJSONPath\<close>: follow the keys; each step needs a map that has the key.\<close>

fun valueAtJSONPath :: "iface \<Rightarrow> string list \<Rightarrow> error + iface" where
  "valueAtJSONPath val [] = Inr val"
| "valueAtJSONPath val (k # path) =
     (case val of
        VMap valMap \<Rightarrow>
          (case fmlookup valMap k of
             None \<Rightarrow> Inl ValueAtJSONPathInvalidPath
           | Some val' \<Rightarrow> valueAtJSONPath val' path)
      | _ \<Rightarrow> Inl (ValueAtJSONPathNotMap (typeOf val)))"

definition mapAtJSONPath :: "iface \<Rightarrow> string list \<Rightarrow> error + (string, iface) fmap" where
  "mapAtJSONPath val path =
     (case valueAtJSONPath val path of
        Inl err \<Rightarrow> Inl err
      | Inr result \<Rightarrow>
          (case result of
             VMap resultMap \<Rightarrow> Inr resultMap
           | _ \<Rightarrow> Inl (MapAtJSONPathNotMap (typeOf result))))"

text \<open>
  \<^verbatim>\<open>getBoundaryFieldResults\<close>: the elements of \<^verbatim>\<open>_result\<close> when that key is present,
  otherwise the values under \<^verbatim>\<open>_0\<close>, \<^verbatim>\<open>_1\<close>, ... up to \<^verbatim>\<open>len(src)\<close>. Each must be a map.
\<close>

fun resultElements :: "iface list \<Rightarrow> nat \<Rightarrow> (string, iface) fmap list
    \<Rightarrow> error + (string, iface) fmap list" where
  "resultElements [] i result = Inr result"
| "resultElements (element # rest) i result =
     (case element of
        VMap elementMap \<Rightarrow> resultElements rest (Suc i) (result @ [elementMap])
      | _ \<Rightarrow> Inl (BoundaryResultsElementNotMap i (typeOf element)))"

fun aliasElements :: "(string, iface) fmap \<Rightarrow> nat list \<Rightarrow> (string, iface) fmap list
    \<Rightarrow> error + (string, iface) fmap list" where
  "aliasElements src [] result = Inr result"
| "aliasElements src (i # rest) result =
     (case fmlookup src (nodeAlias (int i)) of
        None \<Rightarrow> Inl (BoundaryResultsMissingKey (nodeAlias (int i)))
      | Some element \<Rightarrow>
          (case element of
             VMap elementMap \<Rightarrow> aliasElements src rest (result @ [elementMap])
           | _ \<Rightarrow> Inl (BoundaryResultsAliasNotMap (nodeAlias (int i)) (typeOf element))))"

definition getBoundaryFieldResults :: "(string, iface) fmap
    \<Rightarrow> error + (string, iface) fmap list" where
  "getBoundaryFieldResults src =
     (case fmlookup src ''_result'' of
        Some arrayBoundaryFieldResults \<Rightarrow>
          (case arrayBoundaryFieldResults of
             VSlice elems \<Rightarrow> resultElements elems 0 []
           | _ \<Rightarrow> Inl (BoundaryResultsNotSlice (typeOf arrayBoundaryFieldResults)))
      | None \<Rightarrow> aliasElements src [0 ..< fcard (fmdom src)] [])"

text \<open>
  \<^verbatim>\<open>srcID == dstID\<close> on two interface values: different dynamic types are unequal, equal
  dynamic types compare by value, and a slice or a map on both sides panics. Two
  \<^verbatim>\<open>float64\<close> are equal when neither is a NaN and the bits agree or both are zeros.
\<close>

definition float64IsNaN :: "64 word \<Rightarrow> bool" where
  "float64IsNaN w = (0x7FF0000000000000 < (w AND 0x7FFFFFFFFFFFFFFF))"

definition float64Eq :: "64 word \<Rightarrow> 64 word \<Rightarrow> bool" where
  "float64Eq a b =
     (\<not> float64IsNaN a \<and> \<not> float64IsNaN b
      \<and> (a = b \<or> (a AND 0x7FFFFFFFFFFFFFFF = 0 \<and> b AND 0x7FFFFFFFFFFFFFFF = 0)))"

fun ifaceEq :: "iface \<Rightarrow> iface \<Rightarrow> error + bool" where
  "ifaceEq VNil VNil = Inr True"
| "ifaceEq (VBool a) (VBool b) = Inr (a = b)"
| "ifaceEq (VFloat64 a) (VFloat64 b) = Inr (float64Eq a b)"
| "ifaceEq (VString a) (VString b) = Inr (a = b)"
| "ifaceEq (VInt a) (VInt b) = Inr (a = b)"
| "ifaceEq (VSlice a) (VSlice b) = Inl (PanicUncomparable TSlice)"
| "ifaceEq (VMap a) (VMap b) = Inl (PanicUncomparable TMap)"
| "ifaceEq _ _ = Inr False"

text \<open>
  The inner loops of the list case of \<^verbatim>\<open>mergeExecutionResultsRec\<close>. For one
  destination element and one source child: read the child's \<^verbatim>\<open>_id\<close>, and on a match
  copy every key of the child into the map at the insertion key of the element (the map
  is looked up once per copied key, so not at all for a child without keys).
\<close>

definition mergeChild :: "string \<Rightarrow> iface \<Rightarrow> iface \<Rightarrow> (string, iface) fmap \<Rightarrow> error + iface" where
  "mergeChild key dstID dstValue srcValue =
     (case valueAtJSONPath (VMap srcValue) [''_id''] of
        Inl err \<Rightarrow> Inl err
      | Inr srcID \<Rightarrow>
          (case ifaceEq srcID dstID of
             Inl err \<Rightarrow> Inl err
           | Inr False \<Rightarrow> Inr dstValue
           | Inr True \<Rightarrow>
               (case mapAtJSONPath (VMap srcValue) [] of
                  Inl err \<Rightarrow> Inl err
                | Inr srcMap \<Rightarrow>
                    if fmdom srcMap = {||} then Inr dstValue
                    else
                      (case mapAtJSONPath dstValue [key] of
                         Inl err \<Rightarrow> Inl err
                       | Inr dstMap \<Rightarrow>
                           (case dstValue of
                              VMap d \<Rightarrow> Inr (VMap (fmupd key (VMap (dstMap ++\<^sub>f srcMap)) d))
                            | _ \<Rightarrow> Inr dstValue)))))"

fun mergeChildren :: "string \<Rightarrow> iface \<Rightarrow> iface \<Rightarrow> (string, iface) fmap list \<Rightarrow> error + iface" where
  "mergeChildren key dstID dstValue [] = Inr dstValue"
| "mergeChildren key dstID dstValue (srcValue # rest) =
     (case mergeChild key dstID dstValue srcValue of
        Inl err \<Rightarrow> Inl err
      | Inr dstValue' \<Rightarrow> mergeChildren key dstID dstValue' rest)"

definition mergeElement :: "(string, iface) fmap \<Rightarrow> string \<Rightarrow> iface \<Rightarrow> error + iface" where
  "mergeElement src key dstValue =
     (case valueAtJSONPath dstValue [key, ''_id''] of
        Inl err \<Rightarrow> Inl err
      | Inr dstID \<Rightarrow>
          (case getBoundaryFieldResults src of
             Inl err \<Rightarrow> Inl err
           | Inr srcValues \<Rightarrow> mergeChildren key dstID dstValue srcValues))"

text \<open>
  \<^verbatim>\<open>mergeExecutionResultsRec(src, dst, insertionPoint)\<close> updates \<^verbatim>\<open>dst\<close> in place; the
  model returns the updated \<^verbatim>\<open>dst\<close>. The three parts are the source's: the empty
  insertion point, the insertion point of one key, and the recursive case.
\<close>

function mergeExecutionResultsRec :: "(string, iface) fmap \<Rightarrow> iface \<Rightarrow> string list \<Rightarrow> error + iface" where
  "mergeExecutionResultsRec src dst [] =
     (case dst of
        VMap ptr \<Rightarrow> Inr (VMap (ptr ++\<^sub>f src))
      | _ \<Rightarrow> Inl (MergeUnexpectedTopLevel (typeOf dst)))"
| "mergeExecutionResultsRec src dst [key] =
     (case dst of
        VMap ptr \<Rightarrow>
          (case mapAtJSONPath (VMap ptr) [key] of
             Inl err \<Rightarrow> Inl err
           | Inr ptr' \<Rightarrow>
               (case mapAtJSONPath (VMap src) [nodeAlias 0] of
                  Inl err \<Rightarrow> Inl err
                | Inr data \<Rightarrow> Inr (VMap (fmupd key (VMap (ptr' ++\<^sub>f data)) ptr))))
      | VSlice ptr \<Rightarrow>
          (case collect (map (mergeElement src key) ptr) of
             Inl err \<Rightarrow> Inl err
           | Inr ptr' \<Rightarrow> Inr (VSlice ptr'))
      | _ \<Rightarrow> Inl (MergeUnexpectedNonTopLevel (typeOf dst)))"
| "mergeExecutionResultsRec src dst (key # key' # rest) =
     (case dst of
        VMap ptr \<Rightarrow>
          (case mergeExecutionResultsRec src (index ptr key) (key' # rest) of
             Inl err \<Rightarrow> Inl err
           | Inr v \<Rightarrow> Inr (VMap (fmupd key v ptr)))
      | VSlice ptr \<Rightarrow>
          (case collect (map (\<lambda>innerPtr. mergeExecutionResultsRec src innerPtr (key # key' # rest)) ptr) of
             Inl err \<Rightarrow> Inl err
           | Inr ptr' \<Rightarrow> Inr (VSlice ptr'))
      | _ \<Rightarrow> Inl (MergeUnexpectedNonTopLevel (typeOf dst)))"
  by pat_completeness auto
termination
  by (relation "measures [\<lambda>(src, dst, ip). length ip, \<lambda>(src, dst, ip). size dst]")
     (auto simp: less_Suc_eq_le size_list_estimation')

text \<open>
  The top-level destination is the first result's map; the recursive function returns it
  updated, again a map.
\<close>

definition mapOf :: "iface \<Rightarrow> (string, iface) fmap" where
  "mapOf v = (case v of VMap m \<Rightarrow> m | _ \<Rightarrow> fmempty)"

fun mergeLoop :: "(string, iface) fmap \<Rightarrow> ExecutionResult list \<Rightarrow> error + (string, iface) fmap" where
  "mergeLoop data [] = Inr data"
| "mergeLoop data (result # rest) =
     (case mergeExecutionResultsRec (Data result) (VMap data) (InsertionPoint result) of
        Inl err \<Rightarrow> Inl err
      | Inr dst \<Rightarrow> mergeLoop (mapOf dst) rest)"

fun mergeExecutionResults :: "ExecutionResult list \<Rightarrow> error + (string, iface) fmap" where
  "mergeExecutionResults [] = Inl NothingToMerge"
| "mergeExecutionResults [result] = Inr (Data result)"
| "mergeExecutionResults (first # results) = mergeLoop (Data first) results"

section \<open>Null bubbling\<close>

text \<open>
  The parts of the parsed query the bubbler reads. A type is \<^verbatim>\<open>ast.Type\<close>: a named
  type has no \<^verbatim>\<open>Elem\<close>, a list type has one. A field carries its alias, the type of
  its definition (\<^verbatim>\<open>field.Definition.Type\<close>) and its selection set, \<^verbatim>\<open>nil\<close> for a
  leaf. A fragment spread carries the selection set of its definition. The definitions
  are taken as resolved, as query validation leaves them.
\<close>

datatype gtype = Type (NamedType: string) (Elem: "gtype option") (NonNull: bool)

datatype selection =
    Field (Alias: string) (Name: string) (FieldType: gtype) (SelectionSet: "selection list option")
  | FragmentSpread (FragmentName: string) (TypeCondition: string) (FragmentSelectionSet: "selection list")
  | InlineFragment (InlineTypeCondition: string) (InlineSelectionSet: "selection list")

datatype PathElement = PathName string | PathIndex int

record GraphqlError =
  Message :: string
  Path :: "PathElement list"
  Extensions :: "(string, iface) fmap option"

text \<open>
  \<^verbatim>\<open>currentType.Elem.NonNull\<close>: both pointers can be \<^verbatim>\<open>nil\<close> (the root is walked
  with no type, a named type has no element type), and reading through one panics.
\<close>

definition elemNonNull :: "gtype option \<Rightarrow> error + bool" where
  "elemNonNull currentType =
     (case currentType of
        None \<Rightarrow> Inl PanicNilDereference
      | Some t \<Rightarrow> (case Elem t of None \<Rightarrow> Inl PanicNilDereference | Some e \<Rightarrow> Inr (NonNull e)))"

text \<open>
  \<^verbatim>\<open>bubbleUpNullValuesInPlaceRec\<close> returns the errors, the bubble flag and the tree as
  the in-place updates leave it. The schema argument is only passed along by the source
  and is left out. \<^verbatim>\<open>bubbleSelections\<close> is the loop over the selection set of the
  map case, with the map, the errors and the flag as its state; a fragment spread calls
  the walker again on the same map, which enters this loop afresh. \<^verbatim>\<open>bubbleElements\<close>
  is the loop of the list case: the elements already walked, those still to walk, the
  errors and the flag. Any other selection is the \<^verbatim>\<open>default\<close> branch.
\<close>

function
  bubbleUpNullValuesInPlaceRec :: "gtype option \<Rightarrow> selection list \<Rightarrow> iface \<Rightarrow> PathElement list
    \<Rightarrow> error + (GraphqlError list \<times> bool \<times> iface)"
and bubbleSelections :: "gtype option \<Rightarrow> selection list \<Rightarrow> (string, iface) fmap \<Rightarrow> PathElement list
    \<Rightarrow> GraphqlError list \<Rightarrow> bool \<Rightarrow> error + (GraphqlError list \<times> bool \<times> (string, iface) fmap)"
and bubbleElements :: "gtype option \<Rightarrow> selection list \<Rightarrow> iface list \<Rightarrow> iface list \<Rightarrow> PathElement list
    \<Rightarrow> GraphqlError list \<Rightarrow> bool \<Rightarrow> error + (GraphqlError list \<times> bool \<times> iface list)"
where
  "bubbleUpNullValuesInPlaceRec currentType selectionSet result path =
     (case result of
        VMap m \<Rightarrow>
          (case bubbleSelections currentType selectionSet m path [] False of
             Inl err \<Rightarrow> Inl err
           | Inr (errs, bubbleUp, m') \<Rightarrow> Inr (errs, bubbleUp, VMap m'))
      | VSlice xs \<Rightarrow>
          (case bubbleElements currentType selectionSet [] xs path [] False of
             Inl err \<Rightarrow> Inl err
           | Inr (errs, bubbleUp, xs') \<Rightarrow> Inr (errs, bubbleUp, VSlice xs'))
      | _ \<Rightarrow> Inl (BubbleUnexpectedResultType (typeOf result)))"
| "bubbleSelections currentType [] result path errs bubbleUp = Inr (errs, bubbleUp, result)"
| "bubbleSelections currentType (sel # rest) result path errs bubbleUp =
     (case sel of
        Field alias name fieldType selSet \<Rightarrow>
          (case selSet of
             Some fieldSelectionSet \<Rightarrow>
               (case bubbleUpNullValuesInPlaceRec (Some fieldType) fieldSelectionSet (index result alias)
                       (path @ [PathName alias]) of
                  Inl lowerErr \<Rightarrow> Inl lowerErr
                | Inr (lowerErrs, lowerBubbleUp, v) \<Rightarrow>
                    if lowerBubbleUp then
                      if NonNull fieldType
                      then bubbleSelections currentType rest (fmupd alias v result) path (errs @ lowerErrs) True
                      else bubbleSelections currentType rest (fmupd alias VNil result) path (errs @ lowerErrs) bubbleUp
                    else bubbleSelections currentType rest (fmupd alias v result) path (errs @ lowerErrs) bubbleUp)
           | None \<Rightarrow>
               if index result alias = VNil \<and> NonNull fieldType
               then bubbleSelections currentType rest result path
                      (errs @ [\<lparr>Message = ''TODO'', Path = path @ [PathName alias], Extensions = None\<rparr>]) True
               else bubbleSelections currentType rest result path errs bubbleUp)
      | FragmentSpread name typeCondition fragmentSelectionSet \<Rightarrow>
          (case bubbleSelections currentType fragmentSelectionSet result path [] False of
             Inl lowerErr \<Rightarrow> Inl lowerErr
           | Inr (lowerErrs, lowerBubbleUp, result') \<Rightarrow>
               bubbleSelections currentType rest result' path (errs @ lowerErrs) lowerBubbleUp)
      | InlineFragment typeCondition inlineSelectionSet \<Rightarrow> Inl UnknownSelectionType)"
| "bubbleElements currentType selectionSet done [] path errs bubbleUp = Inr (errs, bubbleUp, done)"
| "bubbleElements currentType selectionSet done (x # rest) path errs bubbleUp =
     (case bubbleUpNullValuesInPlaceRec currentType selectionSet x (path @ [PathIndex (int (length done))]) of
        Inl lowerErr \<Rightarrow> Inl lowerErr
      | Inr (lowerErrs, lowerBubbleUp, v) \<Rightarrow>
          if lowerBubbleUp then
            (case elemNonNull currentType of
               Inl panic \<Rightarrow> Inl panic
             | Inr True \<Rightarrow> bubbleElements currentType selectionSet (done @ [v]) rest path (errs @ lowerErrs) True
             | Inr False \<Rightarrow> bubbleElements currentType selectionSet (done @ [VNil]) rest path (errs @ lowerErrs) bubbleUp)
          else bubbleElements currentType selectionSet (done @ [v]) rest path (errs @ lowerErrs) bubbleUp)"
  by pat_completeness auto
termination
  by (relation "inv_image (less_than <*lex*> less_than <*lex*> less_than)
     (\<lambda>x. case x of
        Inl (ct, sel, v, p) \<Rightarrow> (size_list size sel, size v, 0::nat)
      | Inr (Inl (ct, sel, m, p, e, b)) \<Rightarrow> (size_list size sel, 0::nat, 0::nat)
      | Inr (Inr (ct, sel, dn, xs, p, e, b)) \<Rightarrow> (size_list size sel, size_list size xs, 1::nat))")
     auto

declare bubbleUpNullValuesInPlaceRec.simps [simp del]

text \<open>
  \<^verbatim>\<open>bubbleUpNullValuesInPlace\<close> returns the pair of the source (the errors, the
  error) and, third, the tree after the walk when the walk returned.
\<close>

definition bubbleUpNullValuesInPlace :: "selection list \<Rightarrow> (string, iface) fmap
    \<Rightarrow> GraphqlError list \<times> error option \<times> (string, iface) fmap option" where
  "bubbleUpNullValuesInPlace selectionSet result =
     (case bubbleUpNullValuesInPlaceRec None selectionSet (VMap result) [] of
        Inl err \<Rightarrow> ([], Some err, None)
      | Inr (errs, bubbleUp, v) \<Rightarrow>
          if bubbleUp then ([], Some ErrNullBubbledToRoot, Some (mapOf v))
          else (errs, None, Some (mapOf v)))"

section \<open>The response\<close>

text \<open>
  The end of \<^verbatim>\<open>ExecuteQuery\<close>, from the merge on. What comes before it is given:
  \<open>errs\<close> are the errors gathered so far (those of authorization and of the results),
  \<open>results\<close> the execution results with the introspection result in front, and
  \<open>formatResponseBody\<close>, which is not part of the code at hand, a parameter that gets
  the selection set and the merged tree or \<^verbatim>\<open>nil\<close>. An error of the merge, of the bubbling
  (other than the null that reached the root) or of the formatting is appended to the
  errors and ends the response without data; the error list that the bubbling returns is
  assigned to the blank identifier.
\<close>

datatype 'e responseError = Carried 'e | FromError error

record 'e Response =
  ResponseData :: "string option"
  ResponseErrors :: "'e responseError list"

definition respond :: "(selection list \<Rightarrow> (string, iface) fmap option \<Rightarrow> error + string)
    \<Rightarrow> 'e responseError list \<Rightarrow> selection list \<Rightarrow> (string, iface) fmap option \<Rightarrow> 'e Response" where
  "respond formatResponseBody errs selectionSet mergedResult =
     (case formatResponseBody selectionSet mergedResult of
        Inl err \<Rightarrow> \<lparr>ResponseData = None, ResponseErrors = errs @ [FromError err]\<rparr>
      | Inr formattedResponse \<Rightarrow>
          \<lparr>ResponseData = Some formattedResponse, ResponseErrors = errs\<rparr>)"

definition ExecuteQuery :: "(selection list \<Rightarrow> (string, iface) fmap option \<Rightarrow> error + string)
    \<Rightarrow> 'e responseError list \<Rightarrow> selection list \<Rightarrow> ExecutionResult list \<Rightarrow> 'e Response" where
  "ExecuteQuery formatResponseBody errs selectionSet results =
     (case mergeExecutionResults results of
        Inl err \<Rightarrow> \<lparr>ResponseData = None, ResponseErrors = errs @ [FromError err]\<rparr>
      | Inr mergedResult \<Rightarrow>
          (case bubbleUpNullValuesInPlace selectionSet mergedResult of
             (_, err, tree) \<Rightarrow>
               (case err of
                  Some e \<Rightarrow>
                    if e = ErrNullBubbledToRoot
                    then respond formatResponseBody errs selectionSet None
                    else \<lparr>ResponseData = None, ResponseErrors = errs @ [FromError e]\<rparr>
                | None \<Rightarrow> respond formatResponseBody errs selectionSet tree)))"

section \<open>Boundary query documents\<close>

record BoundaryQuery =
  Query :: string
  Array :: bool

text \<open>\<^verbatim>\<open>strings.Join(elems, sep)\<close>.\<close>

fun joinStrings :: "string list \<Rightarrow> string \<Rightarrow> string" where
  "joinStrings [] sep = []"
| "joinStrings [x] sep = x"
| "joinStrings (x # y # rest) sep = x @ sep @ joinStrings (y # rest) sep"

text \<open>
  \<^verbatim>\<open>batchBy\<close>: while the batch size is below the number of items left, cut a batch off
  the front; the rest is the last batch. A negative batch size below the length panics
  at the slice expression, and a batch size of zero never leaves the loop, which is the
  value \<open>None\<close>.
\<close>

partial_function (option) batchByLoop :: "string list \<Rightarrow> int \<Rightarrow> string list list
    \<Rightarrow> (error + string list list) option" where
  "batchByLoop items batchSize batches =
     (if batchSize < int (length items) then
        (if batchSize < 0 then Some (Inl PanicSliceBounds)
         else batchByLoop (drop (nat batchSize) items) batchSize
                (batches @ [take (nat batchSize) items]))
      else Some (Inr (batches @ [items])))"

declare batchByLoop.simps [code]

definition batchBy :: "string list \<Rightarrow> int \<Rightarrow> (error + string list list) option" where
  "batchBy items batchSize = batchByLoop items batchSize []"

text \<open>
  \<^verbatim>\<open>buildBoundaryQueryDocuments\<close>. Two things it calls are not part of the code at
  hand and are parameters: \<open>quote\<close> is what the verb \<^verbatim>\<open>%q\<close> prints for a string, and
  \<open>selectionSetQL\<close> is the step's selection set as \<^verbatim>\<open>formatSelectionSetSingleLine\<close>
  prints it. The inner loop builds the selections of one batch and the outer loop one
  document per batch; \<^verbatim>\<open>selectionIndex\<close> lives across both.
\<close>

definition selectionQL :: "(string \<Rightarrow> string) \<Rightarrow> string \<Rightarrow> string \<Rightarrow> int \<Rightarrow> string \<Rightarrow> string" where
  "selectionQL quote selectionSetQL query selectionIndex id' =
     nodeAlias selectionIndex @ '': '' @ query @ ''(id: '' @ quote id' @ '') '' @ selectionSetQL"

fun selectionsLoop :: "(string \<Rightarrow> string) \<Rightarrow> string \<Rightarrow> string \<Rightarrow> string list
    \<Rightarrow> string list \<Rightarrow> int \<Rightarrow> string list \<times> int" where
  "selectionsLoop quote selectionSetQL query [] selections selectionIndex =
     (selections, selectionIndex)"
| "selectionsLoop quote selectionSetQL query (id' # batch) selections selectionIndex =
     selectionsLoop quote selectionSetQL query batch
       (selections @ [selectionQL quote selectionSetQL query selectionIndex id'])
       (selectionIndex + 1)"

definition documentQL :: "string list \<Rightarrow> string" where
  "documentQL selections = ''{ '' @ joinStrings selections '' '' @ '' }''"

fun documentsLoop :: "(string \<Rightarrow> string) \<Rightarrow> string \<Rightarrow> string \<Rightarrow> string list list
    \<Rightarrow> string list \<Rightarrow> int \<Rightarrow> string list" where
  "documentsLoop quote selectionSetQL query [] documents selectionIndex = documents"
| "documentsLoop quote selectionSetQL query (batch # batches) documents selectionIndex =
     (case selectionsLoop quote selectionSetQL query batch [] selectionIndex of
        (selections, selectionIndex') \<Rightarrow>
          documentsLoop quote selectionSetQL query batches
            (documents @ [documentQL selections]) selectionIndex')"

definition buildBoundaryQueryDocuments :: "(string \<Rightarrow> string) \<Rightarrow> string \<Rightarrow> string list
    \<Rightarrow> BoundaryQuery \<Rightarrow> int \<Rightarrow> (error + string list) option" where
  "buildBoundaryQueryDocuments quote selectionSetQL ids parentTypeBoundaryField batchSize =
     (if Array parentTypeBoundaryField then
        Some (Inr [''{ _result: '' @ Query parentTypeBoundaryField @ ''(ids: ''
                   @ (''['' @ joinStrings (map quote ids) '', '' @ '']'')
                   @ '') '' @ selectionSetQL @ '' }''])
      else
        (case batchBy ids batchSize of
           None \<Rightarrow> None
         | Some (Inl panic) \<Rightarrow> Some (Inl panic)
         | Some (Inr batches) \<Rightarrow>
             Some (Inr (documentsLoop quote selectionSetQL (Query parentTypeBoundaryField)
                          batches [] 0))))"

text \<open>
  What \<^verbatim>\<open>%q\<close> prints for a string of printable ASCII characters with no double
  quote and no backslash in it: the string between double quotes.
\<close>

definition quotePlain :: "string \<Rightarrow> string" where
  "quotePlain s = [CHR 0x22] @ s @ [CHR 0x22]"

text \<open>
  The batching as the specification words it: the IDs in consecutive chunks of the batch
  size, the last one possibly shorter, one document per chunk, and the selection of the
  \<open>i\<close>-th ID under the alias \<^verbatim>\<open>_i\<close>, counted from 0 across the chunks.
\<close>

definition chunkCount :: "nat \<Rightarrow> nat \<Rightarrow> nat" where
  "chunkCount n b = (if n = 0 then 1 else (n + b - 1) div b)"

definition chunkIndices :: "nat \<Rightarrow> nat \<Rightarrow> nat \<Rightarrow> nat list" where
  "chunkIndices n b k = [k * b ..< min (k * b + b) n]"

definition specChunks :: "nat \<Rightarrow> string list \<Rightarrow> string list list" where
  "specChunks b ids =
     map (\<lambda>k. map (\<lambda>i. ids ! i) (chunkIndices (length ids) b k)) [0 ..< chunkCount (length ids) b]"

definition specDocuments :: "(string \<Rightarrow> string) \<Rightarrow> string \<Rightarrow> string \<Rightarrow> nat \<Rightarrow> string list \<Rightarrow> string list" where
  "specDocuments quote selectionSetQL query b ids =
     map (\<lambda>k. documentQL
            (map (\<lambda>i. selectionQL quote selectionSetQL query (int i) (ids ! i))
               (chunkIndices (length ids) b k)))
       [0 ..< chunkCount (length ids) b]"

section \<open>Inputs of the repository's tests\<close>

text \<open>\<^verbatim>\<open>TestExtractBoundaryIDs\<close>: four gizmos, the owners keyed by \<^verbatim>\<open>_id\<close> or by \<^verbatim>\<open>id\<close>.\<close>

definition extractTestData :: iface where
  "extractTestData = VMap (fmap_of_list [(''gizmos'', VSlice [
      VMap (fmap_of_list [(''id'', VString ''1''), (''name'', VString ''Gizmo 1''),
        (''owner'', VMap (fmap_of_list [(''_id'', VString ''1'')]))]),
      VMap (fmap_of_list [(''id'', VString ''2''), (''name'', VString ''Gizmo 2''),
        (''owner'', VMap (fmap_of_list [(''id'', VString ''1'')]))]),
      VMap (fmap_of_list [(''id'', VString ''3''), (''name'', VString ''Gizmo 3''),
        (''owner'', VMap (fmap_of_list [(''_id'', VString ''2'')]))]),
      VMap (fmap_of_list [(''id'', VString ''4''), (''name'', VString ''Gizmo 4''),
        (''owner'', VMap (fmap_of_list [(''id'', VString ''5'')]))])])])"

text \<open>
  \<^verbatim>\<open>TestMergeExecutionResults\<close>, "merges two top level results" and "allows using both
  'id' and '_id'".
\<close>

definition topLevelA :: ExecutionResult where
  "topLevelA = \<lparr>ServiceURL = ''http://service-a'', InsertionPoint = [],
     Data = fmap_of_list [(''gizmoA'',
       VMap (fmap_of_list [(''id'', VString ''1''), (''color'', VString ''Gizmo A'')]))]\<rparr>"


definition bothKeysA :: ExecutionResult where
  "bothKeysA = \<lparr>ServiceURL = ''http://service-a'', InsertionPoint = [],
     Data = fmap_of_list [(''gizmos'', VSlice [
       VMap (fmap_of_list [(''id'', VString ''1''), (''color'', VString ''RED''),
         (''owner'', VMap (fmap_of_list [(''id'', VString ''4'')]))]),
       VMap (fmap_of_list [(''id'', VString ''2''), (''color'', VString ''GREEN''),
         (''owner'', VMap (fmap_of_list [(''id'', VString ''5'')]))]),
       VMap (fmap_of_list [(''id'', VString ''3''), (''color'', VString ''BLUE''),
         (''owner'', VMap (fmap_of_list [(''_id'', VString ''6'')]))])])]\<rparr>"

definition bothKeysB :: ExecutionResult where
  "bothKeysB = \<lparr>ServiceURL = ''http://service-b'', InsertionPoint = [''gizmos'', ''owner''],
     Data = fmap_of_list [(''_result'', VSlice [
       VMap (fmap_of_list [(''_id'', VString ''4''), (''name'', VString ''Owner A'')]),
       VMap (fmap_of_list [(''id'', VString ''5''), (''name'', VString ''Owner B'')]),
       VMap (fmap_of_list [(''id'', VString ''6''), (''name'', VString ''Owner C'')])])]\<rparr>"

text \<open>
  \<^verbatim>\<open>TestBubbleUpNullValuesInPlace\<close>: the query \<^verbatim>\<open>{ gizmos { id color } }\<close> against a
  schema in which \<^verbatim>\<open>Gizmo.id\<close> is \<^verbatim>\<open>ID!\<close>, \<^verbatim>\<open>Gizmo.color\<close> is \<^verbatim>\<open>String!\<close> and
  \<^verbatim>\<open>Query.gizmos\<close> has the type given; the same query with its fields inside the inline
  fragment \<^verbatim>\<open>... on Gizmo\<close>; and three gizmos of which one has no color.
\<close>

definition namedType :: "string \<Rightarrow> bool \<Rightarrow> gtype" where
  "namedType name nonNull = Type name None nonNull"

definition listType :: "gtype \<Rightarrow> bool \<Rightarrow> gtype" where
  "listType elem nonNull = Type [] (Some elem) nonNull"

definition gizmoFields :: "selection list" where
  "gizmoFields =
     [Field ''id'' ''id'' (namedType ''ID'' True) None,
      Field ''color'' ''color'' (namedType ''String'' True) None]"

definition gizmosQuery :: "gtype \<Rightarrow> selection list" where
  "gizmosQuery gizmosType = [Field ''gizmos'' ''gizmos'' gizmosType (Some gizmoFields)]"

definition gizmosInlineQuery :: "gtype \<Rightarrow> selection list" where
  "gizmosInlineQuery gizmosType =
     [Field ''gizmos'' ''gizmos'' gizmosType (Some
        [InlineFragment ''Gizmo''
           [Field ''id'' ''id'' (namedType ''ID'' True) None,
            Field ''color'' ''color'' (namedType ''String'' True) None,
            Field ''__typename'' ''__typename'' (namedType ''String'' True) None]])]"

definition gizmo :: "string \<Rightarrow> iface \<Rightarrow> iface" where
  "gizmo ident color = VMap (fmap_of_list [(''id'', VString ident), (''color'', color)])"

definition typedGizmo :: "string \<Rightarrow> iface \<Rightarrow> iface" where
  "typedGizmo ident color =
     VMap (fmap_of_list [(''id'', VString ident), (''color'', color), (''__typename'', VString ''Gizmo'')])"

definition lastColorNull :: "(string, iface) fmap" where
  "lastColorNull = fmap_of_list [(''gizmos'', VSlice
     [gizmo ''GIZMO1'' (VString ''RED''), gizmo ''GIZMO2'' (VString ''GREEN''), gizmo ''GIZMO3'' VNil])]"

definition middleColorNull :: "(string, iface) fmap" where
  "middleColorNull = fmap_of_list [(''gizmos'', VSlice
     [gizmo ''GIZMO1'' (VString ''RED''), gizmo ''GIZMO3'' VNil, gizmo ''GIZMO2'' (VString ''GREEN'')])]"

text \<open>
  The results \<^verbatim>\<open>ExecuteQuery\<close> merges when one service answered with these gizmos and
  the query has no introspection field.
\<close>

definition introspectionResult :: ExecutionResult where
  "introspectionResult = \<lparr>ServiceURL = [], InsertionPoint = [], Data = fmempty\<rparr>"

definition lastColorNullResult :: ExecutionResult where
  "lastColorNullResult =
     \<lparr>ServiceURL = ''http://service-a'', InsertionPoint = [], Data = lastColorNull\<rparr>"

text \<open>The error the code builds for the color of the gizmo at an index.\<close>

definition colorError :: "nat \<Rightarrow> GraphqlError" where
  "colorError i = \<lparr>Message = ''TODO'',
     Path = [PathName ''gizmos'', PathIndex (int i), PathName ''color''], Extensions = None\<rparr>"

definition typedLastColorNull :: "(string, iface) fmap" where
  "typedLastColorNull = fmap_of_list [(''gizmos'', VSlice
     [typedGizmo ''GIZMO1'' (VString ''RED''), typedGizmo ''GIZMO2'' (VString ''GREEN''),
      typedGizmo ''GIZMO3'' VNil])]"

text \<open>
  A query with a fragment spread on another type than the object's: \<^verbatim>\<open>Gizmo\<close> and
  \<^verbatim>\<open>Gremlin\<close> implement the interface \<^verbatim>\<open>Critter\<close>, \<^verbatim>\<open>Gremlin.name\<close> is \<^verbatim>\<open>String!\<close>,
  \<^verbatim>\<open>Query.critter\<close> is a \<^verbatim>\<open>Critter\<close>, the query is
  \<^verbatim>\<open>{ critter { ...GremlinDetails } }\<close> with
  \<^verbatim>\<open>fragment GremlinDetails on Gremlin { name }\<close>, and the critter returned is a gizmo.
\<close>

definition critterQuery :: "selection list" where
  "critterQuery =
     [Field ''critter'' ''critter'' (namedType ''Critter'' False) (Some
        [FragmentSpread ''GremlinDetails'' ''Gremlin''
           [Field ''name'' ''name'' (namedType ''String'' True) None]])]"

definition critterIsGizmo :: "(string, iface) fmap" where
  "critterIsGizmo = fmap_of_list [(''critter'', typedGizmo ''GIZMO1'' (VString ''RED''))]"

section \<open>Properties of the merger\<close>


text \<open>Merging into a map gives a map: the top-level destination stays one.\<close>

lemma mergeExecutionResultsRec_map:
  "mergeExecutionResultsRec src (VMap m) ip = Inr v \<Longrightarrow> \<exists>m'. v = VMap m'"
  by (cases "(src, VMap m, ip)" rule: mergeExecutionResultsRec.cases)
     (auto split: sum.splits)



text \<open>
  C10. Merging no result is the error "nothing to merge", so merged data only comes from
  a non-empty list, and merging a single result returns its data unchanged.
\<close>

theorem mergeExecutionResults_empty_and_single:
  "mergeExecutionResults [] = Inl NothingToMerge
   \<and> mergeExecutionResults [r] = Inr (Data r)
   \<and> (\<forall>rs d. mergeExecutionResults rs = Inr d \<longrightarrow> rs \<noteq> [])"
  by auto

theorem mergeExecutionResults_empty_and_single_witness:
  "mergeExecutionResults [] = Inl NothingToMerge
   \<and> mergeExecutionResults [topLevelA] = Inr (Data topLevelA)
   \<and> [topLevelA] \<noteq> []"
  using mergeExecutionResults_empty_and_single [of topLevelA] by simp

text \<open>
  C2. On the input of the test "allows using both 'id' and '_id'" the merge does not
  succeed: the first destination owner carries \<^verbatim>\<open>id\<close> only, and reading its \<^verbatim>\<open>_id\<close>
  is the error "invalid path".
\<close>

theorem mergeExecutionResults_id_only_destination:
  "mergeExecutionResults [bothKeysA, bothKeysB] = Inl ValueAtJSONPathInvalidPath"
  by (simp add: bothKeysA_def bothKeysB_def index_def mergeElement_def)

section \<open>Properties of the ID extraction\<close>

text \<open>
  C1. On the input of \<^verbatim>\<open>TestExtractBoundaryIDs\<close> the extraction does not return the
  four IDs: the second owner carries \<^verbatim>\<open>id\<close> only, and the result is the error
  "unexpected missing '_id' in map".
\<close>

theorem extractBoundaryIDs_test_input:
  "extractBoundaryIDs extractTestData [''gizmos'', ''owner''] = Inl ExtractMissingID"
  by (simp add: extractTestData_def index_def)

section \<open>Properties of the null bubbler\<close>





lemma fmupd_same_key_inject: "fmupd k a m = fmupd k b n \<Longrightarrow> a = b"
  by (metis fmupd_lookup option.inject)



text \<open>
  C3. On the input of the test "1 expected null (bubble to root)" the walk collects the
  error for the missing color and signals bubble at the root;
  \<^verbatim>\<open>bubbleUpNullValuesInPlace\<close> then returns \<^verbatim>\<open>ErrNullBubbledToRoot\<close> and no error list:
  the collected error is dropped. \<^verbatim>\<open>ExecuteQuery\<close> formats the \<^verbatim>\<open>nil\<close> tree and
  responds with the errors it had before: none comes from the bubbling.
\<close>

theorem bubble_root_drops_errors:
  "bubbleUpNullValuesInPlaceRec None (gizmosQuery (listType (namedType ''Gizmo'' True) True))
       (VMap lastColorNull) []
     = Inr ([colorError 2], True, VMap lastColorNull)
   \<and> bubbleUpNullValuesInPlace (gizmosQuery (listType (namedType ''Gizmo'' True) True)) lastColorNull
     = ([], Some ErrNullBubbledToRoot, Some lastColorNull)
   \<and> ExecuteQuery formatResponseBody errs (gizmosQuery (listType (namedType ''Gizmo'' True) True))
        [introspectionResult, lastColorNullResult]
     = respond formatResponseBody errs (gizmosQuery (listType (namedType ''Gizmo'' True) True)) None"
proof -
  let ?q = "gizmosQuery (listType (namedType ''Gizmo'' True) True)"
  have walk: "bubbleUpNullValuesInPlaceRec None ?q (VMap lastColorNull) []
     = Inr ([colorError 2], True, VMap lastColorNull)"
    by (simp add: bubbleUpNullValuesInPlaceRec.simps gizmosQuery_def
        gizmoFields_def listType_def namedType_def lastColorNull_def gizmo_def index_def
        elemNonNull_def colorError_def)
  have top: "bubbleUpNullValuesInPlace ?q lastColorNull
     = ([], Some ErrNullBubbledToRoot, Some lastColorNull)"
    by (simp add: bubbleUpNullValuesInPlace_def walk mapOf_def)
  have merged: "mergeExecutionResults [introspectionResult, lastColorNullResult] = Inr lastColorNull"
    by (simp add: introspectionResult_def lastColorNullResult_def mapOf_def)
  have "ExecuteQuery formatResponseBody errs ?q [introspectionResult, lastColorNullResult]
     = respond formatResponseBody errs ?q None"
    unfolding ExecuteQuery_def merged by (simp add: top)
  with walk top show ?thesis by blast
qed

text \<open>
  C4. On the input of the test "1 expected null (bubble to middle in array)" the one
  error for the non-null leaf \<^verbatim>\<open>color\<close> has the path \<^verbatim>\<open>gizmos[1].color\<close> and the message
  \<^verbatim>\<open>TODO\<close>, not \<^verbatim>\<open>field failed to resolve\<close>.
\<close>

theorem bubble_leaf_message:
  "bubbleUpNullValuesInPlace (gizmosQuery (listType (namedType ''Gizmo'' False) True)) middleColorNull
     = ([\<lparr>Message = ''TODO'', Path = [PathName ''gizmos'', PathIndex 1, PathName ''color''],
          Extensions = None\<rparr>],
        None,
        Some (fmap_of_list [(''gizmos'', VSlice
          [gizmo ''GIZMO1'' (VString ''RED''), VNil, gizmo ''GIZMO2'' (VString ''GREEN'')])]))"
  by (simp add: bubbleUpNullValuesInPlaceRec.simps bubbleUpNullValuesInPlace_def gizmosQuery_def
        gizmoFields_def listType_def namedType_def middleColorNull_def gizmo_def index_def
        elemNonNull_def mapOf_def)

text \<open>
  C5, as stated, fails: with \<^verbatim>\<open>gizmos: [Gizmo!]\<close> and the third gizmo without a color,
  the tree after bubbling has \<^verbatim>\<open>gizmos\<close> itself \<^verbatim>\<open>nil\<close>; it is not the list with a
  \<^verbatim>\<open>nil\<close> third element.
\<close>

theorem bubble_nonnull_element_counterexample:
  "snd (snd (bubbleUpNullValuesInPlace (gizmosQuery (listType (namedType ''Gizmo'' True) False))
       lastColorNull))
     = Some (fmap_of_list [(''gizmos'', VNil)])
   \<and> snd (snd (bubbleUpNullValuesInPlace (gizmosQuery (listType (namedType ''Gizmo'' True) False))
       lastColorNull))
     \<noteq> Some (fmap_of_list [(''gizmos'', VSlice
          [gizmo ''GIZMO1'' (VString ''RED''), gizmo ''GIZMO2'' (VString ''GREEN''), VNil])])"
  by (auto simp add: bubbleUpNullValuesInPlaceRec.simps bubbleUpNullValuesInPlace_def gizmosQuery_def
        gizmoFields_def listType_def namedType_def lastColorNull_def gizmo_def index_def
        elemNonNull_def mapOf_def
        dest: fmupd_same_key_inject)

text \<open>
  C5, amended. With \<^verbatim>\<open>gizmos: [Gizmo!]\<close>, two gizmos with a color and a third whose
  non-null \<^verbatim>\<open>color\<close> is \<^verbatim>\<open>nil\<close>: bubbling returns without error, emits one error, at the
  path \<^verbatim>\<open>gizmos[2].color\<close>, and leaves \<^verbatim>\<open>gizmos\<close> itself \<^verbatim>\<open>nil\<close>, since the element type
  is non-null and the list type is nullable.
\<close>

theorem bubble_nonnull_element_nulls_field:
  "map Path (fst (bubbleUpNullValuesInPlace (gizmosQuery (listType (namedType ''Gizmo'' True) False))
       (fmap_of_list [(''gizmos'', VSlice
          [gizmo i0 (VString c0), gizmo i1 (VString c1), gizmo i2 VNil])])))
     = [[PathName ''gizmos'', PathIndex 2, PathName ''color'']]
   \<and> snd (bubbleUpNullValuesInPlace (gizmosQuery (listType (namedType ''Gizmo'' True) False))
       (fmap_of_list [(''gizmos'', VSlice
          [gizmo i0 (VString c0), gizmo i1 (VString c1), gizmo i2 VNil])]))
     = (None, Some (fmap_of_list [(''gizmos'', VNil)]))"
  by (simp add: bubbleUpNullValuesInPlaceRec.simps bubbleUpNullValuesInPlace_def gizmosQuery_def
        gizmoFields_def listType_def namedType_def gizmo_def index_def elemNonNull_def mapOf_def)

text \<open>
  C7. On the input of the test "works with inline fragments" the walk fails with
  "unknown selection type". And a fragment spread is applied whatever the object's
  \<^verbatim>\<open>__typename\<close>: the spread on \<^verbatim>\<open>Gremlin\<close> is applied to a gizmo, whose missing
  \<^verbatim>\<open>name\<close> then is an error and makes the critter \<^verbatim>\<open>nil\<close>.
\<close>

theorem bubble_fragments:
  "bubbleUpNullValuesInPlace (gizmosInlineQuery (listType (namedType ''Gizmo'' False) True))
       typedLastColorNull
     = ([], Some UnknownSelectionType, None)
   \<and> bubbleUpNullValuesInPlace critterQuery critterIsGizmo
     = ([\<lparr>Message = ''TODO'', Path = [PathName ''critter'', PathName ''name''],
          Extensions = None\<rparr>],
        None,
        Some (fmap_of_list [(''critter'', VNil)]))"
  by (simp add: bubbleUpNullValuesInPlaceRec.simps bubbleUpNullValuesInPlace_def
        gizmosInlineQuery_def critterQuery_def critterIsGizmo_def listType_def namedType_def
        typedLastColorNull_def typedGizmo_def index_def elemNonNull_def mapOf_def)

section \<open>Properties of the boundary query builder\<close>

lemma chunkCount_small: "1 \<le> b \<Longrightarrow> n \<le> b \<Longrightarrow> chunkCount n b = 1"
  by (auto simp: chunkCount_def intro!: div_nat_eqI)

lemma chunkCount_step:
  assumes "1 \<le> b" and "b < n"
  shows "chunkCount n b = Suc (chunkCount (n - b) b)"
proof -
  have l: "n + b - 1 = (n - 1) + b" and r: "n - b + b - 1 = n - 1"
    using assms by simp_all
  have "chunkCount n b = (n + b - 1) div b"
    using assms by (simp add: chunkCount_def)
  also have "\<dots> = (n - 1 + b) div b"
    by (simp only: l)
  also have "\<dots> = (n - 1) div b + 1"
    using assms by (intro div_add_self2) simp
  also have "\<dots> = Suc ((n - b + b - 1) div b)"
    by (simp only: r)
  also have "\<dots> = Suc (chunkCount (n - b) b)"
    using assms by (simp add: chunkCount_def)
  finally show ?thesis .
qed

lemma map_nth_upt_take: "b \<le> length xs \<Longrightarrow> map ((!) xs) [0 ..< b] = take b xs"
  by (rule nth_equalityI) auto

lemma chunkIndices_small: "n \<le> b \<Longrightarrow> chunkIndices n b 0 = [0 ..< n]"
  by (simp add: chunkIndices_def min_def)

lemma chunkIndices_first: "b < n \<Longrightarrow> chunkIndices n b 0 = [0 ..< b]"
  by (simp add: chunkIndices_def min_def)

lemma map_shift_upt: "map (\<lambda>i. i + (b::nat)) [l ..< u] = [l + b ..< u + b]"
  by (rule nth_equalityI) auto

lemma chunkIndices_step:
  assumes "b < n"
  shows "chunkIndices n b (Suc k) = map (\<lambda>i. i + b) (chunkIndices (n - b) b k)"
proof -
  have "min (k * b + b) (n - b) + b = min (Suc k * b + b) n"
    using assms by (auto simp: min_def)
  then show ?thesis
    by (simp add: chunkIndices_def map_shift_upt add.commute)
qed

lemma specChunks_small:
  assumes "1 \<le> b" and "length ids \<le> b"
  shows "specChunks b ids = [ids]"
  using assms by (simp add: specChunks_def chunkCount_small chunkIndices_small map_nth)

lemma specChunks_step:
  assumes "1 \<le> b" and "b < length ids"
  shows "specChunks b ids = take b ids # specChunks b (drop b ids)"
proof -
  have first: "map ((!) ids) (chunkIndices (length ids) b 0) = take b ids"
    using assms by (simp add: chunkIndices_first map_nth_upt_take)
  have rest: "map ((!) ids) (chunkIndices (length ids) b (Suc k))
      = map ((!) (drop b ids)) (chunkIndices (length (drop b ids)) b k)" for k
    using assms by (simp add: chunkIndices_step comp_def add.commute)
  show ?thesis
    using assms
    by (simp add: specChunks_def chunkCount_step map_upt_Suc first rest del: upt_Suc)
qed

lemma batchByLoop_specChunks:
  assumes "1 \<le> batchSize"
  shows "batchByLoop items batchSize batches = Some (Inr (batches @ specChunks (nat batchSize) items))"
proof (induction "length items" arbitrary: items batches rule: less_induct)
  case less
  show ?case
  proof (cases "batchSize < int (length items)")
    case True
    then have lt: "nat batchSize < length items" using assms by linarith
    have "length (drop (nat batchSize) items) < length items"
      using assms lt by simp
    from less [OF this] show ?thesis
      using True assms lt
      by (subst batchByLoop.simps) (simp add: specChunks_step)
  next
    case False
    then have "length items \<le> nat batchSize" using assms by linarith
    then show ?thesis
      using False assms
      by (subst batchByLoop.simps) (simp add: specChunks_small)
  qed
qed

lemma selectionsLoop_map:
  "selectionsLoop quote sel q batch acc idx =
     (acc @ map (\<lambda>j. selectionQL quote sel q (idx + int j) (batch ! j)) [0 ..< length batch],
      idx + int (length batch))"
proof (induction batch arbitrary: acc idx)
  case Nil
  show ?case by simp
next
  case (Cons x batch)
  show ?case
    by (simp add: Cons.IH map_upt_Suc add.assoc del: upt_Suc)
qed

lemma documentsLoop_specChunks:
  assumes "1 \<le> b"
  shows "documentsLoop quote sel q (specChunks b items) docs idx =
     docs @ map (\<lambda>k. documentQL
                  (map (\<lambda>i. selectionQL quote sel q (idx + int i) (items ! i))
                     (chunkIndices (length items) b k)))
              [0 ..< chunkCount (length items) b]"
proof (induction "length items" arbitrary: items docs idx rule: less_induct)
  case less
  show ?case
  proof (cases "b < length items")
    case False
    then have le: "length items \<le> b" by simp
    show ?thesis
      using assms le
      by (simp add: specChunks_small selectionsLoop_map chunkCount_small chunkIndices_small)
  next
    case True
    have shorter: "length (drop b items) < length items"
      using assms True by simp
    have first: "map (\<lambda>j. selectionQL quote sel q (idx + int j) (take b items ! j)) [0 ..< b]
        = map (\<lambda>i. selectionQL quote sel q (idx + int i) (items ! i)) (chunkIndices (length items) b 0)"
      using True by (simp add: chunkIndices_first)
    have rest: "map (\<lambda>i. selectionQL quote sel q (idx + int b + int i) (items ! (b + i)))
          (chunkIndices (length items - b) b k)
        = map (\<lambda>i. selectionQL quote sel q (idx + int i) (items ! i))
          (chunkIndices (length items) b (Suc k))" for k
      using True by (simp add: chunkIndices_step comp_def add.commute add.left_commute)
    show ?thesis
      using assms True
      by (simp add: specChunks_step selectionsLoop_map less [OF shorter] chunkCount_step
            map_upt_Suc first rest min_def del: upt_Suc)
  qed
qed

lemma concat_specChunks:
  assumes "1 \<le> b"
  shows "concat (specChunks b ids) = ids"
proof (induction "length ids" arbitrary: ids rule: less_induct)
  case less
  show ?case
  proof (cases "b < length ids")
    case False
    then show ?thesis using assms by (simp add: specChunks_small)
  next
    case True
    then have "length (drop b ids) < length ids" using assms by simp
    from less [OF this] show ?thesis
      using assms True by (simp add: specChunks_step)
  qed
qed

text \<open>
  C8. For a batch size of at least 1 and a singular-form boundary query, \<^verbatim>\<open>batchBy\<close>
  returns the IDs in consecutive chunks of the batch size, the last one possibly shorter
  (chunk \<open>k\<close> holds the IDs at the indices from \<open>k * B\<close> up to \<open>k * B + B\<close> or the
  end), which together are the ID list; and the documents are one per chunk, the
  selections of a chunk joined by a space between the braces, the selection of the
  \<open>i\<close>-th ID under the alias \<^verbatim>\<open>_i\<close>, with \<open>i\<close> its index in the whole ID list. The
  witness is the example of the IDs 1, 2, 3 in batches of 2.
\<close>

theorem buildBoundaryQueryDocuments_batches:
  assumes "1 \<le> batchSize" and "\<not> Array parentTypeBoundaryField"
  shows "batchBy ids batchSize = Some (Inr (specChunks (nat batchSize) ids))
       \<and> concat (specChunks (nat batchSize) ids) = ids
       \<and> buildBoundaryQueryDocuments quote selectionSetQL ids parentTypeBoundaryField batchSize
           = Some (Inr (specDocuments quote selectionSetQL (Query parentTypeBoundaryField)
                          (nat batchSize) ids))"
proof -
  have b: "1 \<le> nat batchSize" using assms(1) by simp
  have chunks: "batchBy ids batchSize = Some (Inr (specChunks (nat batchSize) ids))"
    using batchByLoop_specChunks [OF assms(1), of ids "[]"] by (simp add: batchBy_def)
  have docs: "documentsLoop quote selectionSetQL (Query parentTypeBoundaryField)
        (specChunks (nat batchSize) ids) [] 0
      = specDocuments quote selectionSetQL (Query parentTypeBoundaryField) (nat batchSize) ids"
    using documentsLoop_specChunks [OF b, of quote selectionSetQL "Query parentTypeBoundaryField" ids "[]" 0]
    by (simp add: specDocuments_def)
  show ?thesis
    using assms(2) chunks docs concat_specChunks [OF b]
    by (simp add: buildBoundaryQueryDocuments_def)
qed

theorem buildBoundaryQueryDocuments_batches_witness:
  \<open>(1::int) \<le> 2 \<and> \<not> Array \<lparr>Query = ''getOwner'', Array = False\<rparr>
   \<and> batchBy [''1'', ''2'', ''3''] 2 = Some (Inr [[''1'', ''2''], [''3'']])
   \<and> buildBoundaryQueryDocuments quotePlain ''{ _id: id name }'' [''1'', ''2'', ''3'']
        \<lparr>Query = ''getOwner'', Array = False\<rparr> 2
      = Some (Inr [''{ _0: getOwner(id: "1") { _id: id name } _1: getOwner(id: "2") { _id: id name } }'',
                   ''{ _2: getOwner(id: "3") { _id: id name } }''])\<close>
proof -
  have c: "specChunks (nat 2) [''1'', ''2'', ''3''] = [[''1'', ''2''], [''3'']]"
    by code_simp
  have d: \<open>specDocuments quotePlain ''{ _id: id name }'' ''getOwner'' (nat 2) [''1'', ''2'', ''3'']
      = [''{ _0: getOwner(id: "1") { _id: id name } _1: getOwner(id: "2") { _id: id name } }'',
         ''{ _2: getOwner(id: "3") { _id: id name } }'']\<close>
    by code_simp
  show ?thesis
    using buildBoundaryQueryDocuments_batches [of 2 "\<lparr>Query = ''getOwner'', Array = False\<rparr>"
        "[''1'', ''2'', ''3'']" quotePlain "''{ _id: id name }''"] c d
    by simp
qed

end
